theory Spec2Isabelle
  imports Main
begin

section \<open>Python primitives used by wallix\_ssh.py\<close>

text \<open>
  Exceptions that the modelled code can raise and does not catch itself. A function that can
  let one escape returns \<open>exn + 'a\<close>, with \<open>Inl\<close> for the exception.
\<close>

datatype exn = AttributeError | IndexError | EOFError | ReError | SystemExit nat

text \<open>
  \<open>str.lower()\<close> and \<open>str.upper()\<close> on ASCII text: the twenty-six letters change case,
  every other character stays.
\<close>

definition upper_letters :: string where
  "upper_letters = ''ABCDEFGHIJKLMNOPQRSTUVWXYZ''"

definition lower_letters :: string where
  "lower_letters = ''abcdefghijklmnopqrstuvwxyz''"

definition lower_char :: "char \<Rightarrow> char" where
  "lower_char c = (case map_of (zip upper_letters lower_letters) c of Some l \<Rightarrow> l | None \<Rightarrow> c)"

definition upper_char :: "char \<Rightarrow> char" where
  "upper_char c = (case map_of (zip lower_letters upper_letters) c of Some u \<Rightarrow> u | None \<Rightarrow> c)"

definition lower :: "string \<Rightarrow> string" where
  "lower s = map lower_char s"

definition upper :: "string \<Rightarrow> string" where
  "upper s = map upper_char s"

text \<open>\<open>str.strip()\<close>: the ASCII characters for which \<open>str.isspace()\<close> holds are removed at both ends.\<close>

definition is_space :: "char \<Rightarrow> bool" where
  "is_space c = (c \<in> set [CHR '' '', CHR 0x09, CHR 0x0A, CHR 0x0B, CHR 0x0C, CHR 0x0D,
                           CHR 0x1C, CHR 0x1D, CHR 0x1E, CHR 0x1F])"

definition strip :: "string \<Rightarrow> string" where
  "strip s = rev (dropWhile is_space (rev (dropWhile is_space s)))"

text \<open>
  \<open>s.split(sep)\<close> for a one-character separator: every occurrence separates, and the result
  always has at least one element (\<open>''.split(',') == ['']\<close>).
\<close>

fun py_split :: "char \<Rightarrow> string \<Rightarrow> string list" where
  "py_split sep [] = [[]]"
| "py_split sep (c # cs) =
     (if c = sep then [] # py_split sep cs
      else (case py_split sep cs of [] \<Rightarrow> [[c]] | p # ps \<Rightarrow> (c # p) # ps))"

text \<open>\<open>sub in s\<close> for strings: \<open>sub\<close> occurs in \<open>s\<close> as a contiguous run.\<close>

fun starts_with :: "string \<Rightarrow> string \<Rightarrow> bool" where
  "starts_with s [] = True"
| "starts_with [] (p # ps) = False"
| "starts_with (c # cs) (p # ps) = (c = p \<and> starts_with cs ps)"

fun contains :: "string \<Rightarrow> string \<Rightarrow> bool" where
  "contains [] sub = (sub = [])"
| "contains (c # cs) sub = (starts_with (c # cs) sub \<or> contains cs sub)"

text \<open>\<open>xs[i]\<close> for a non-negative index: IndexError out of range.\<close>

definition index :: "'a list \<Rightarrow> nat \<Rightarrow> exn + 'a" where
  "index xs i = (if i < length xs then Inr (xs ! i) else Inl IndexError)"

text \<open>
  A list comprehension whose element expression can raise: the elements are evaluated from
  left to right and the first exception ends the comprehension.
\<close>

fun map_exn :: "('a \<Rightarrow> exn + 'b) \<Rightarrow> 'a list \<Rightarrow> exn + 'b list" where
  "map_exn f [] = Inr []"
| "map_exn f (x # xs) =
     (case f x of
        Inl e \<Rightarrow> Inl e
      | Inr y \<Rightarrow> (case map_exn f xs of Inl e \<Rightarrow> Inl e | Inr ys \<Rightarrow> Inr (y # ys)))"

text \<open>
  \<open>int(s)\<close> on a line of input: an optional sign and decimal digits give the number,
  anything else is a ValueError (\<open>None\<close>). Underscores between digits and digits outside ASCII,
  which Python also accepts, are not modelled.
\<close>

definition digit_value :: "char \<Rightarrow> nat option" where
  "digit_value c = map_of (zip ''0123456789'' [0, 1, 2, 3, 4, 5, 6, 7, 8, 9]) c"

fun digits_value :: "nat \<Rightarrow> string \<Rightarrow> nat option" where
  "digits_value acc [] = Some acc"
| "digits_value acc (c # cs) =
     (case digit_value c of None \<Rightarrow> None | Some d \<Rightarrow> digits_value (10 * acc + d) cs)"

definition py_int :: "string \<Rightarrow> int option" where
  "py_int s =
     (case strip s of
        [] \<Rightarrow> None
      | c # cs \<Rightarrow>
          if c = CHR ''-'' then (if cs = [] then None else map_option (\<lambda>n. - int n) (digits_value 0 cs))
          else if c = CHR ''+'' then (if cs = [] then None else map_option int (digits_value 0 cs))
          else map_option int (digits_value 0 (c # cs)))"

section \<open>Data model\<close>

text \<open>
  A device as the bastion API returns it and as the program handles it in memory: a dict with
  the keys \<open>device_name\<close> and \<open>host\<close>, and the keys \<open>services\<close>, \<open>tags\<close> and
  \<open>description\<close>, which the code reads with \<open>.get(key, default)\<close> and which are therefore
  optional here. A service is a dict \<open>{'service_name': s}\<close>, a tag a dict
  \<open>{'key': k, 'value': v}\<close>.
\<close>

record service =
  service_name :: string

record tag =
  key :: string
  val :: string

record device =
  device_name :: string
  host :: string
  services :: "service list option"
  tags :: "tag list option"
  description :: "string option"

text \<open>\<open>device.get('services', [])\<close>, \<open>device.get('tags', [])\<close>, \<open>device.get('description', '')\<close>.\<close>

definition get_services :: "device \<Rightarrow> service list" where
  "get_services d = (case services d of None \<Rightarrow> [] | Some ss \<Rightarrow> ss)"

definition get_tags :: "device \<Rightarrow> tag list" where
  "get_tags d = (case tags d of None \<Rightarrow> [] | Some ts \<Rightarrow> ts)"

definition get_description :: "device \<Rightarrow> string" where
  "get_description d = (case description d of None \<Rightarrow> [] | Some s \<Rightarrow> s)"

text \<open>The simplified device of the cache file: services are names, tags are "key:value" strings.\<close>

record cached_device =
  nom :: string
  hote :: string
  c_services :: "string list"
  c_tags :: "string list"
  c_description :: string

record snapshot =
  timestamp :: int
  devices :: "cached_device list"

record history_entry =
  h_device_name :: string
  h_host :: string
  h_services :: "string list"
  h_tags :: "string list"
  h_description :: string
  h_timestamp :: int

text \<open>The body of the PUT request of \<open>update_device\<close>.\<close>

record update_data =
  u_device_name :: string
  u_host :: string
  u_description :: string
  u_tags :: "tag list"

text \<open>
  A JSON file on disk as the program sees it: missing, present with content that
  \<open>json.load\<close> or the reads that follow reject, or present with well-formed content.
\<close>

datatype 'a json_file = Absent | Malformed | Content 'a

text \<open>Reading a deploy file: its bytes, FileNotFoundError, or another I/O error.\<close>

datatype file_read = Found string | NotFound | ReadError

text \<open>What the program writes to the log, the console, the network and the shell, in order.\<close>

datatype event =
    LogInfo string
  | LogError string
  | LogCacheFound "(int \<times> string) list"
  | LogCacheSaved nat
  | LogNewMachines nat
  | LogRetrievalCompleted nat
  | LogConnecting string
  | LogDeviceNotFound string
  | LogUpdated string
  | LogUpdateError nat
  | LogMachineNotFound string
  | Console string
  | NewMachinesTable "cached_device list"
  | DevicesTable "device list"
  | ResultsTable "device list"
  | GetPass
  | HttpPost string string
  | HttpGet
  | HttpPut string update_data
  | Run string int

text \<open>
  The state of a run: the fields of \<open>WallixManager\<close> and of the configuration that the code
  reads (\<open>username\<close>, \<open>password\<close>, \<open>bastion_host\<close>, \<open>deploy_files\<close>), the two files, the
  clock (\<open>datetime.now()\<close>, in seconds), the lines still to come on standard input, the
  trace of events, and the answers of the environment: the password typed at the
  \<open>getpass\<close> prompt, the bastion's answers to the three requests (\<open>None\<close> is a
  \<open>RequestException\<close>, otherwise the status code and, for the device listing, the decoded
  body), \<open>re.compile\<close> with \<open>re.IGNORECASE\<close> (\<open>None\<close> is \<open>re.error\<close>, otherwise the
  pattern's \<open>search\<close> as a predicate), the files under \<open>~/.sshtools\<close>, the composition of
  \<open>gzip.compress\<close> and \<open>base64.b64encode\<close>, and the exit status of the shell command.
\<close>

record world =
  username :: string
  password :: string
  bastion_host :: string
  deploy_files :: "string list"
  cache_file :: "snapshot json_file"
  history_file :: "history_entry list json_file"
  now :: int
  stdin :: "string list"
  events :: "event list"
  typed_password :: string
  auth_response :: "string \<Rightarrow> string \<Rightarrow> nat option"
  devices_response :: "(nat \<times> device list) option"
  put_response :: "string \<Rightarrow> update_data \<Rightarrow> nat option"
  re_compile :: "string \<Rightarrow> (string \<Rightarrow> bool) option"
  sshtools :: "string \<Rightarrow> file_read"
  gzip_b64 :: "string \<Rightarrow> string"
  shell_exit :: "string \<Rightarrow> int"

definition emit :: "event \<Rightarrow> world \<Rightarrow> world" where
  "emit e w = w\<lparr>events := events w @ [e]\<rparr>"

text \<open>\<open>input()\<close>: the next line of standard input, EOFError when there is none.\<close>

definition read_line :: "world \<Rightarrow> (exn + string) \<times> world" where
  "read_line w =
     (case stdin w of
        [] \<Rightarrow> (Inl EOFError, w)
      | l # ls \<Rightarrow> (Inr l, w\<lparr>stdin := ls\<rparr>))"

section \<open>Cache store\<close>

text \<open>
  The age of the cache as \<open>load_cache\<close> formats it: \<open>int(seconds / 60)\<close> truncates towards
  zero, \<open>//\<close> and \<open>%\<close> floor; days and hours appear when positive, minutes always. Each part
  is the number with its unit.
\<close>

definition age_parts :: "int \<Rightarrow> (int \<times> string) list" where
  "age_parts seconds =
     (let total_minutes = (if 0 \<le> seconds then seconds div 60 else - ((- seconds) div 60));
          hours0 = total_minutes div 60;
          minutes = total_minutes mod 60;
          days = hours0 div 24;
          hours = hours0 mod 24
      in (if days > 0 then [(days, if days > 1 then ''days'' else ''day'')] else []) @
         (if hours > 0 then [(hours, if hours > 1 then ''hours'' else ''hour'')] else []) @
         [(minutes, if minutes > 1 then ''minutes'' else ''minute'')])"

definition load_cache :: "bool \<Rightarrow> world \<Rightarrow> cached_device list option \<times> world" where
  "load_cache force_refresh w =
     (if force_refresh then (None, emit (LogInfo ''Forcing cache refresh...'') w)
      else
        (case cache_file w of
           Absent \<Rightarrow> (None, emit (LogInfo ''No cache found'') w)
         | Malformed \<Rightarrow> (None, emit (LogError ''Error loading cache'') w)
         | Content cache_data \<Rightarrow>
             (Some (devices cache_data),
              emit (LogCacheFound (age_parts (now w - timestamp cache_data))) w)))"

text \<open>\<open>f"{tag['key']}:{tag['value']}"\<close>\<close>

definition render_tag :: "tag \<Rightarrow> string" where
  "render_tag t = key t @ '':'' @ val t"

definition simplify :: "device \<Rightarrow> cached_device" where
  "simplify d =
     \<lparr>nom = device_name d,
      hote = host d,
      c_services = map service_name (get_services d),
      c_tags = map render_tag (get_tags d),
      c_description = get_description d\<rparr>"

text \<open>
  The comparison with the previous cache at the end of \<open>save_cache\<close>: skipped when the old
  device list is empty (no cache file, or a cache of no devices); more than ten new devices
  are reported as a count, up to ten as a table.
\<close>

definition report_new :: "cached_device list \<Rightarrow> cached_device list \<Rightarrow> world \<Rightarrow> world" where
  "report_new old_devices simplified_devices w =
     (if old_devices \<noteq> [] then
        (let old_device_names = set (map nom old_devices);
             new_devices = filter (\<lambda>d. nom d \<notin> old_device_names) simplified_devices
         in if new_devices \<noteq> [] then
              (if length new_devices > 10 then emit (LogNewMachines (length new_devices)) w
               else emit (NewMachinesTable new_devices) (emit (Console ''New machines added'') w))
            else w)
      else w)"

text \<open>
  \<open>save_cache\<close>: the old cache is read inside the same \<open>try\<close> as the write, so a cache file
  that does not parse ends the save with a logged error before anything is written.
\<close>

definition save_cache :: "device list \<Rightarrow> world \<Rightarrow> world" where
  "save_cache devs w =
     (case cache_file w of
        Malformed \<Rightarrow> emit (LogError ''Error saving cache'') w
      | old_file \<Rightarrow>
          (let old_devices = (case old_file of Content old_cache_data \<Rightarrow> devices old_cache_data | _ \<Rightarrow> []);
               simplified_devices = map simplify devs;
               cache_data = \<lparr>timestamp = now w, devices = simplified_devices\<rparr>;
               w1 = emit (LogCacheSaved (length devs)) (w\<lparr>cache_file := Content cache_data\<rparr>)
           in report_new old_devices simplified_devices w1))"

section \<open>Device directory client\<close>

definition authenticate :: "world \<Rightarrow> bool \<times> world" where
  "authenticate w =
     (let w1 = (if password w = [] then emit GetPass (w\<lparr>password := typed_password w\<rparr>) else w);
          w2 = emit (HttpPost (username w1) (password w1)) w1
      in (case auth_response w2 (username w2) (password w2) of
            None \<Rightarrow> (False, w2)
          | Some status_code \<Rightarrow> (status_code = 204, w2)))"

text \<open>
  The conversion of a cached device back to the API shape. \<open>t.split(':')[1]\<close> raises
  IndexError on a tag string without a colon; the conversion is outside every \<open>try\<close>.
\<close>

definition parse_tag :: "string \<Rightarrow> exn + tag" where
  "parse_tag t =
     (case index (py_split (CHR '':'') t) 0 of
        Inl e \<Rightarrow> Inl e
      | Inr k \<Rightarrow>
          (case index (py_split (CHR '':'') t) 1 of
             Inl e \<Rightarrow> Inl e
           | Inr v \<Rightarrow> Inr \<lparr>key = k, val = v\<rparr>))"

definition from_cache :: "cached_device \<Rightarrow> exn + device" where
  "from_cache c =
     (case map_exn parse_tag (c_tags c) of
        Inl e \<Rightarrow> Inl e
      | Inr ts \<Rightarrow>
          Inr \<lparr>device_name = nom c,
               host = hote c,
               services = Some (map (\<lambda>s. \<lparr>service_name = s\<rparr>) (c_services c)),
               tags = Some ts,
               description = Some (c_description c)\<rparr>)"

text \<open>The request of \<open>get_devices\<close> and what follows it (the part after the cache lookup).\<close>

definition fetch_devices :: "world \<Rightarrow> device list \<times> world" where
  "fetch_devices w =
     (let w1 = emit HttpGet (emit (LogInfo ''Retrieving all machines...'') w)
      in (case devices_response w1 of
            None \<Rightarrow> ([], emit (LogError ''Request error'') w1)
          | Some (status_code, devs) \<Rightarrow>
              if status_code \<in> {200, 206}
              then (devs, save_cache devs (emit (LogRetrievalCompleted (length devs)) w1))
              else ([], emit (LogError ''Error retrieving machines'') w1)))"

definition get_devices :: "bool \<Rightarrow> world \<Rightarrow> (exn + device list) \<times> world" where
  "get_devices force_refresh w =
     (if \<not> force_refresh then
        (case load_cache force_refresh w of
           (Some cached_devices, w1) \<Rightarrow> (map_exn from_cache cached_devices, w1)
         | (None, w1) \<Rightarrow> (case fetch_devices w1 of (devs, w2) \<Rightarrow> (Inr devs, w2)))
      else (case fetch_devices w of (devs, w1) \<Rightarrow> (Inr devs, w1)))"

section \<open>History store\<close>

text \<open>
  \<open>next((i for i, h in enumerate(history) if P(h)), None)\<close>: the index of the first element
  that satisfies \<open>P\<close>.
\<close>

fun first_index :: "('a \<Rightarrow> bool) \<Rightarrow> 'a list \<Rightarrow> nat option" where
  "first_index P [] = None"
| "first_index P (x # xs) = (if P x then Some 0 else map_option Suc (first_index P xs))"

text \<open>\<open>xs.pop(i)\<close> for an index in range: the list without its element at \<open>i\<close>.\<close>

definition pop :: "nat \<Rightarrow> 'a list \<Rightarrow> 'a list" where
  "pop i xs = take i xs @ drop (Suc i) xs"

definition new_entry :: "device \<Rightarrow> world \<Rightarrow> history_entry" where
  "new_entry d w =
     \<lparr>h_device_name = device_name d,
      h_host = host d,
      h_services = map service_name (get_services d),
      h_tags = map render_tag (get_tags d),
      h_description = get_description d,
      h_timestamp = now w\<rparr>"

text \<open>
  \<open>update_history\<close>: the whole body is in one \<open>try\<close>, so a history file that does not parse
  ends it with a logged error and the file is left as it is.
\<close>

definition update_history :: "device \<Rightarrow> world \<Rightarrow> world" where
  "update_history d w =
     (case history_file w of
        Malformed \<Rightarrow> emit (LogError ''Error updating history'') w
      | old_file \<Rightarrow>
          (let history = (case old_file of Content h \<Rightarrow> h | _ \<Rightarrow> []);
               existing_index = first_index (\<lambda>h. h_device_name h = device_name d) history;
               history1 = (case existing_index of Some i \<Rightarrow> pop i history | None \<Rightarrow> history);
               history2 = new_entry d w # history1;
               history3 = take 10 history2
           in w\<lparr>history_file := Content history3\<rparr>))"

section \<open>Connector\<close>

text \<open>\<open>sep.join(parts)\<close>\<close>

fun join :: "string \<Rightarrow> string list \<Rightarrow> string" where
  "join sep [] = []"
| "join sep [p] = p"
| "join sep (p # q # ps) = p @ sep @ join sep (q # ps)"

definition ssh_target :: "string \<Rightarrow> device \<Rightarrow> world \<Rightarrow> string" where
  "ssh_target user d w =
     ''ssh -tt -A -p 22 '' @ user @ ''@'' @ device_name d @ '':SSH:'' @ username w @ ''@'' @ bastion_host w"

text \<open>
  The loop over the deploy files: a missing file is logged and skipped; any other failure
  leaves the loop for the outer \<open>except\<close> (the result \<open>None\<close>).
\<close>

fun read_deploy_files :: "string list \<Rightarrow> world \<Rightarrow> (string \<times> string) list option \<times> world" where
  "read_deploy_files [] w = (Some [], w)"
| "read_deploy_files (filename # rest) w =
     (case sshtools w filename of
        Found content \<Rightarrow>
          (case read_deploy_files rest w of
             (None, w1) \<Rightarrow> (None, w1)
           | (Some files_content, w1) \<Rightarrow>
               (Some ((''/tmp/'' @ filename, gzip_b64 w content) # files_content), w1))
      | NotFound \<Rightarrow> read_deploy_files rest (emit (LogError ''File not found'') w)
      | ReadError \<Rightarrow> (None, w))"

definition deploy_cmd :: "string list \<Rightarrow> (string \<times> string) list \<Rightarrow> string" where
  "deploy_cmd dfiles files_content =
     (if files_content \<noteq> [] then
        join '' && ''
          (map (\<lambda>(filename, content).
                  ''echo '' @ [CHR 0x27] @ content @ [CHR 0x27] @ '' | base64 -d | gunzip > '' @ filename)
               files_content) @
        (if ''.bashrc_remote'' \<in> set dfiles then '' && bash --rcfile /tmp/.bashrc_remote''
         else '' && bash -l'')
      else ''bash -l'')"

text \<open>
  \<open>subprocess.run(ssh_command, shell=True)\<close>: the command runs in the foreground and ends
  with some exit status, which the trace records and the code never looks at.
\<close>

definition run :: "string \<Rightarrow> world \<Rightarrow> world" where
  "run ssh_command w = emit (Run ssh_command (shell_exit w ssh_command)) w"

definition connect_to_device :: "device \<Rightarrow> bool \<Rightarrow> bool \<Rightarrow> world \<Rightarrow> world" where
  "connect_to_device d interactive no_deploy w =
     (let w1 = update_history d (emit (LogConnecting (device_name d)) w);
          user = (if interactive then ''Interactive'' else username w1)
      in if no_deploy then run (ssh_target user d w1) w1
         else if interactive then run (ssh_target user d w1) w1
         else
           (case read_deploy_files (deploy_files w1) w1 of
              (Some files_content, w2) \<Rightarrow>
                run (ssh_target user d w2 @ '' '' @ [CHR 0x27] @
                     deploy_cmd (deploy_files w2) files_content @ [CHR 0x27]) w2
            | (None, w2) \<Rightarrow>
                run (ssh_target user d w2 @ '' '' @ [CHR 0x27] @ ''bash -l'' @ [CHR 0x27])
                    (emit (LogError ''Error deploying files'') w2)))"

section \<open>Device update\<close>

text \<open>\<open>next((d for d in devices if d['device_name'] == name), None)\<close>\<close>

definition find_device :: "string \<Rightarrow> device list \<Rightarrow> device option" where
  "find_device name devs = find (\<lambda>d. device_name d = name) devs"

text \<open>
  The body of the update request: the description and the tags given, or else the device's
  own. A new tag without a colon raises IndexError, which the \<open>except\<close> around the whole
  of \<open>update_device\<close> catches.
\<close>

definition build_update :: "device \<Rightarrow> string option \<Rightarrow> string option \<Rightarrow> exn + update_data" where
  "build_update d new_description new_tags =
     (case (case new_tags of
              Some ts \<Rightarrow> map_exn parse_tag (py_split (CHR '','') ts)
            | None \<Rightarrow> Inr (get_tags d)) of
        Inl e \<Rightarrow> Inl e
      | Inr tgs \<Rightarrow>
          Inr \<lparr>u_device_name = device_name d,
               u_host = host d,
               u_description = (case new_description of Some s \<Rightarrow> s | None \<Rightarrow> get_description d),
               u_tags = tgs\<rparr>)"

definition update_device :: "string \<Rightarrow> string option \<Rightarrow> string option \<Rightarrow> world \<Rightarrow> bool \<times> world" where
  "update_device name new_description new_tags w =
     (case authenticate w of
        (False, w1) \<Rightarrow> (False, emit (LogError ''Authentication error'') w1)
      | (True, w1) \<Rightarrow>
          (case get_devices False w1 of
             (Inl e, w2) \<Rightarrow> (False, emit (LogError ''Error updating device'') w2)
           | (Inr devs, w2) \<Rightarrow>
               (case find_device name devs of
                  None \<Rightarrow> (False, emit (LogDeviceNotFound name) w2)
                | Some d \<Rightarrow>
                    (case build_update d new_description new_tags of
                       Inl e \<Rightarrow> (False, emit (LogError ''Error updating device'') w2)
                     | Inr data \<Rightarrow>
                         (let w3 = emit (HttpPut name data) w2
                          in (case put_response w3 name data of
                                None \<Rightarrow> (False, emit (LogError ''Error updating device'') w3)
                              | Some status_code \<Rightarrow>
                                  if status_code \<in> {200, 204}
                                  then (True, snd (get_devices True (emit (LogUpdated name) w3)))
                                  else (False, emit (LogError ''API response'')
                                                 (emit (LogUpdateError status_code) w3))))))))"

section \<open>Search and filter engine\<close>

text \<open>\<open>not s\<close> for an optional string argument is true for \<open>None\<close> and for the empty string.\<close>

definition truthy :: "string option \<Rightarrow> bool" where
  "truthy s = (case s of None \<Rightarrow> False | Some x \<Rightarrow> x \<noteq> [])"

definition filter_by_regex :: "string \<Rightarrow> device list \<Rightarrow> world \<Rightarrow> exn + device list" where
  "filter_by_regex filter_regex results w =
     (case re_compile w filter_regex of
        None \<Rightarrow> Inl ReError
      | Some pattern_search \<Rightarrow>
          Inr (filter (\<lambda>d. pattern_search (device_name d) \<or> pattern_search (host d) \<or>
                            pattern_search (get_description d)) results))"

definition filter_by_services :: "string \<Rightarrow> device list \<Rightarrow> device list" where
  "filter_by_services filter_services results =
     (let required_services = map (\<lambda>s. upper (strip s)) (py_split (CHR '','') filter_services)
      in filter (\<lambda>d. list_all (\<lambda>s. s \<in> set (map (\<lambda>service. upper (service_name service))
                                                   (get_services d)))
                               required_services) results)"

text \<open>
  The tag filter calls \<open>tag.lower()\<close> on each element of \<open>d.get('tags', [])\<close>. The elements
  are the tag dicts \<open>{'key': k, 'value': v}\<close> of the in-memory device, and a dict has no
  method \<open>lower\<close>: the call raises AttributeError, which nothing catches. A value of the
  two Python types involved, and the method call on it:
\<close>

datatype pyval = PyStr string | PyDict "(string \<times> string) list"

definition tag_dict :: "tag \<Rightarrow> pyval" where
  "tag_dict t = PyDict [(''key'', key t), (''value'', val t)]"

fun call_lower :: "pyval \<Rightarrow> exn + string" where
  "call_lower (PyStr s) = Inr (lower s)"
| "call_lower (PyDict kvs) = Inl AttributeError"

text \<open>
  \<open>all(t in [tag.lower() for tag in d.get('tags', [])] for t in required_tags)\<close>: the inner
  list is built anew for each required tag, and \<open>all\<close> stops at the first tag not found.
\<close>

fun all_required_tags :: "string list \<Rightarrow> device \<Rightarrow> exn + bool" where
  "all_required_tags [] d = Inr True"
| "all_required_tags (t # ts) d =
     (case map_exn call_lower (map tag_dict (get_tags d)) of
        Inl e \<Rightarrow> Inl e
      | Inr lowered \<Rightarrow> if t \<in> set lowered then all_required_tags ts d else Inr False)"

text \<open>\<open>[d for d in results if cond(d)]\<close> for a condition that can raise.\<close>

fun filter_exn :: "('a \<Rightarrow> exn + bool) \<Rightarrow> 'a list \<Rightarrow> exn + 'a list" where
  "filter_exn cond [] = Inr []"
| "filter_exn cond (x # xs) =
     (case cond x of
        Inl e \<Rightarrow> Inl e
      | Inr keep \<Rightarrow>
          (case filter_exn cond xs of
             Inl e \<Rightarrow> Inl e
           | Inr ys \<Rightarrow> Inr (if keep then x # ys else ys)))"

definition filter_by_tags :: "string \<Rightarrow> device list \<Rightarrow> exn + device list" where
  "filter_by_tags filter_tags results =
     (let required_tags = map (\<lambda>t. lower (strip t)) (py_split (CHR '','') filter_tags)
      in filter_exn (all_required_tags required_tags) results)"

definition filter_by_query :: "string \<Rightarrow> device list \<Rightarrow> device list" where
  "filter_by_query query results =
     filter (\<lambda>d. contains (lower (device_name d)) (lower query) \<or>
                 contains (lower (host d)) (lower query) \<or>
                 contains (lower (get_description d)) (lower query)) results"

text \<open>The four filters of \<open>search_devices\<close> in the order of the source, each applied when present.\<close>

definition apply_filters ::
  "string option \<Rightarrow> string option \<Rightarrow> string option \<Rightarrow> string option \<Rightarrow> device list \<Rightarrow> world \<Rightarrow>
   exn + device list" where
  "apply_filters query filter_regex filter_services filter_tags devs w =
     (case (if truthy filter_regex then filter_by_regex (the filter_regex) devs w else Inr devs) of
        Inl e \<Rightarrow> Inl e
      | Inr results1 \<Rightarrow>
          (let results2 = (if truthy filter_services
                           then filter_by_services (the filter_services) results1 else results1)
           in (case (if truthy filter_tags then filter_by_tags (the filter_tags) results2
                     else Inr results2) of
                 Inl e \<Rightarrow> Inl e
               | Inr results3 \<Rightarrow>
                   Inr (if truthy query then filter_by_query (the query) results3 else results3))))"

section \<open>Interactive search\<close>

text \<open>
  Nothing but \<open>input()\<close> consumes standard input. The two loops below end because each
  round reads a line; when the lines run out, \<open>input()\<close> raises EOFError.
\<close>

text \<open>
  The numbered menu: \<open>q\<close> leaves, a number in range connects and leaves, anything else
  asks again.
\<close>

function choice_loop :: "device list \<Rightarrow> bool \<Rightarrow> bool \<Rightarrow> world \<Rightarrow> (exn + unit) \<times> world" where
  "choice_loop results interactive no_deploy w =
     (case read_line (emit (Console ''Choice: '') w) of
        (Inl e, w1) \<Rightarrow> (Inl e, w1)
      | (Inr l, w1) \<Rightarrow>
          (let choice = strip l
           in if lower choice = ''q'' then (Inr (), w1)
              else
                (case py_int choice of
                   None \<Rightarrow>
                     choice_loop results interactive no_deploy
                       (emit (Console ''Please enter a valid number.'') w1)
                 | Some n \<Rightarrow>
                     (let index = n - 1
                      in if 0 \<le> index \<and> index < int (length results)
                         then (Inr (), connect_to_device (results ! nat index) interactive no_deploy w1)
                         else choice_loop results interactive no_deploy
                                (emit (Console ''Invalid number. Please try again.'') w1)))))"
  by pat_completeness auto
termination
  by (relation "measure (\<lambda>(results, interactive, no_deploy, w). length (stdin w))")
     (auto simp: read_line_def emit_def split: list.splits)

declare choice_loop.simps [simp del]

text \<open>
  The display of a non-empty result list, which \<open>search_devices\<close> contains twice word for
  word (after the first search and after the retry): one result is shown and connected to
  unless the answer is \<open>n\<close>, several go to the menu.
\<close>

definition present_results :: "device list \<Rightarrow> bool \<Rightarrow> bool \<Rightarrow> world \<Rightarrow> (exn + unit) \<times> world" where
  "present_results results interactive no_deploy w =
     (let w1 = emit (Console ''Search results'') w
      in if length results = 1 then
           (case read_line (emit (Console ''Press Enter to connect or 'n' to cancel'')
                              (emit (DevicesTable results) w1)) of
              (Inl e, w2) \<Rightarrow> (Inl e, w2)
            | (Inr l, w2) \<Rightarrow>
                if lower l \<noteq> ''n''
                then (Inr (), connect_to_device (results ! 0) interactive no_deploy w2)
                else (Inr (), w2))
         else
           choice_loop results interactive no_deploy
             (emit (Console ''Enter the number of the machine to connect to (or 'q' to quit)'')
                (emit (ResultsTable results) w1)))"

text \<open>
  \<open>search_devices\<close>. With no result it offers a forced refresh (an empty answer counts as
  \<open>y\<close>), authenticates, fetches, and then calls itself with the same arguments; what the
  inner call returns is displayed once more by the outer one. The bare \<open>return\<close> after a
  failed authentication is the result \<open>None\<close>.
\<close>

function search_devices ::
  "string option \<Rightarrow> string option \<Rightarrow> string option \<Rightarrow> string option \<Rightarrow> bool \<Rightarrow> bool \<Rightarrow> world \<Rightarrow>
   (exn + device list option) \<times> world" where
  "search_devices query filter_regex filter_services filter_tags interactive no_deploy w =
     (case get_devices False w of
        (Inl e, w1) \<Rightarrow> (Inl e, w1)
      | (Inr devs, w1) \<Rightarrow>
          if \<not> truthy query \<and> \<not> truthy filter_regex \<and> \<not> truthy filter_services \<and> \<not> truthy filter_tags
          then (Inr (Some devs), w1)
          else
            (case apply_filters query filter_regex filter_services filter_tags devs w1 of
               Inl e \<Rightarrow> (Inl e, w1)
             | Inr results \<Rightarrow>
                 if results \<noteq> [] then
                   (case present_results results interactive no_deploy w1 of
                      (Inl e, w2) \<Rightarrow> (Inl e, w2)
                    | (Inr u, w2) \<Rightarrow> (Inr (Some results), w2))
                 else
                   (case read_line
                           (emit (Console ''Do you want to force cache refresh and try again? (y/n)'')
                              (emit (LogError ''No devices found'') w1)) of
                      (Inl e, w2) \<Rightarrow> (Inl e, w2)
                    | (Inr l, w2) \<Rightarrow>
                        (let response = (if lower l = [] then ''y'' else lower l)
                         in if response = ''y'' then
                              (case authenticate w2 of
                                 (False, w3) \<Rightarrow> (Inr None, emit (LogError ''Authentication error'') w3)
                               | (True, w3) \<Rightarrow>
                                   (case get_devices True w3 of
                                      (Inl e, w4) \<Rightarrow> (Inl e, w4)
                                    | (Inr devs', w4) \<Rightarrow>
                                        (case search_devices query filter_regex filter_services
                                                filter_tags interactive no_deploy w4 of
                                           (Inl e, w5) \<Rightarrow> (Inl e, w5)
                                         | (Inr None, w5) \<Rightarrow>
                                             (Inr None, emit (LogError ''No devices found after refresh'') w5)
                                         | (Inr (Some results'), w5) \<Rightarrow>
                                             if results' \<noteq> [] then
                                               (case present_results results' interactive no_deploy w5 of
                                                  (Inl e, w6) \<Rightarrow> (Inl e, w6)
                                                | (Inr u, w6) \<Rightarrow> (Inr (Some results'), w6))
                                             else
                                               (Inr (Some results'),
                                                emit (LogError ''No devices found after refresh'') w5))))
                            else (Inr (Some results), w2)))))"
  by pat_completeness auto
termination
proof -
  have line: "length (stdin w1) < length (stdin w)" if "(r, w1) = read_line (emit e (emit e' w))" and "r = Inr l"
    for r w1 w e e' l
    using that by (auto simp: read_line_def emit_def split: list.splits)
  have fetched: "stdin (snd (fetch_devices w)) = stdin w" for w
    by (simp add: fetch_devices_def save_cache_def report_new_def emit_def Let_def
        split: option.splits prod.splits json_file.splits)
  have loaded: "stdin (snd (load_cache f w)) = stdin w" for f w
    by (simp add: load_cache_def emit_def split: json_file.splits)
  have "stdin (snd (get_devices f w)) = stdin w" for f w
  proof -
    have "snd (get_devices f w) =
            (if f then snd (fetch_devices w)
             else (case fst (load_cache f w) of
                     Some cached \<Rightarrow> snd (load_cache f w)
                   | None \<Rightarrow> snd (fetch_devices (snd (load_cache f w)))))"
      by (simp add: get_devices_def split: prod.splits option.splits)
    then show ?thesis
      using fetched loaded by (simp split: option.splits)
  qed
  then have got: "stdin w1 = stdin w" if "(r, w1) = get_devices f w" for r w1 f w
    using that by (metis snd_conv)
  have "stdin (snd (authenticate w)) = stdin w" for w
    by (simp add: authenticate_def emit_def Let_def split: option.splits)
  then have authed: "stdin w1 = stdin w" if "(b, w1) = authenticate w" for b w1 w
    using that by (metis snd_conv)
  show ?thesis
    apply (relation "measure (\<lambda>(query, filter_regex, filter_services, filter_tags, interactive, no_deploy, w).
                                length (stdin w))")
     apply simp
    apply (frule line, assumption)
    apply (drule got)+
    apply (drule authed)
    apply simp
    done
qed

declare search_devices.simps [simp del]

text \<open>The branch \<open>elif args.connect:\<close> of \<open>main\<close>; \<open>sys.exit(1)\<close> is SystemExit.\<close>

definition main_connect :: "string \<Rightarrow> bool \<Rightarrow> bool \<Rightarrow> bool \<Rightarrow> world \<Rightarrow> (exn + unit) \<times> world" where
  "main_connect name force_refresh interactive no_deploy w =
     (case get_devices force_refresh w of
        (Inl e, w1) \<Rightarrow> (Inl e, w1)
      | (Inr devs, w1) \<Rightarrow>
          (case find_device name devs of
             Some d \<Rightarrow> (Inr (), connect_to_device d interactive no_deploy w1)
           | None \<Rightarrow>
               (case read_line
                       (emit (LogInfo ''Do you want to force cache refresh and try again? (y/n)'')
                          (emit (LogMachineNotFound name) w1)) of
                  (Inl e, w2) \<Rightarrow> (Inl e, w2)
                | (Inr l, w2) \<Rightarrow>
                    (let response = (if lower l = [] then ''y'' else lower l)
                     in if response = ''y'' then
                          (case authenticate w2 of
                             (False, w3) \<Rightarrow> (Inl (SystemExit 1), emit (LogError ''Authentication error'') w3)
                           | (True, w3) \<Rightarrow>
                               (case get_devices True w3 of
                                  (Inl e, w4) \<Rightarrow> (Inl e, w4)
                                | (Inr devs', w4) \<Rightarrow>
                                    (case find_device name devs' of
                                       Some d \<Rightarrow> (Inr (), connect_to_device d interactive no_deploy w4)
                                     | None \<Rightarrow>
                                         (Inr (), emit (LogError ''Machine not found after refresh'') w4))))
                        else (Inr (), w2)))))"

section \<open>Example devices and states\<close>

text \<open>
  The two devices of the specification's examples; a device with a tag whose value holds
  colons and one with a tag whose key holds a colon; two devices with no optional field.
\<close>

definition web1 :: device where
  "web1 = \<lparr>device_name = ''web1'', host = ''10.0.0.1'',
           services = Some [\<lparr>service_name = ''SSH''\<rparr>],
           tags = Some [\<lparr>key = ''env'', val = ''prod''\<rparr>],
           description = Some ''frontend''\<rparr>"

definition db1 :: device where
  "db1 = \<lparr>device_name = ''db1'', host = ''10.0.0.2'',
          services = Some [\<lparr>service_name = ''SSH''\<rparr>, \<lparr>service_name = ''RDP''\<rparr>],
          tags = Some [\<lparr>key = ''env'', val = ''prod''\<rparr>],
          description = Some ''''\<rparr>"

definition app1 :: device where
  "app1 = \<lparr>device_name = ''app1'', host = ''10.0.0.3'',
           services = Some [\<lparr>service_name = ''SSH''\<rparr>],
           tags = Some [\<lparr>key = ''url'', val = ''http://app1:8080''\<rparr>],
           description = Some ''application''\<rparr>"


definition device_a :: device where
  "device_a = \<lparr>device_name = ''A'', host = ''10.0.1.1'', services = None, tags = None,
               description = None\<rparr>"

definition device_b :: device where
  "device_b = \<lparr>device_name = ''B'', host = ''10.0.1.2'', services = None, tags = None,
               description = None\<rparr>"

text \<open>
  A state in which nothing has been cached or recorded yet, the bastion accepts the
  credentials and lists \<open>web1\<close> and \<open>db1\<close>; the same state with both devices
  already in the cache, written ten minutes before; and a state in which the bastion
  lists \<open>app1\<close> and the cache holds it.
\<close>

definition example_world :: world where
  "example_world =
     \<lparr>username = ''admin'', password = ''secret'', bastion_host = ''bastion.example.org'',
      deploy_files = [], cache_file = Absent, history_file = Absent, now = 1000,
      stdin = [], events = [], typed_password = '''',
      auth_response = (\<lambda>u p. Some 204),
      devices_response = Some (200, [web1, db1]),
      put_response = (\<lambda>n u. Some 200),
      re_compile = (\<lambda>p. None),
      sshtools = (\<lambda>f. NotFound),
      gzip_b64 = (\<lambda>s. s),
      shell_exit = (\<lambda>c. 0)\<rparr>"

definition cached_world :: world where
  "cached_world =
     example_world\<lparr>cache_file := Content \<lparr>timestamp = 400, devices = [simplify web1, simplify db1]\<rparr>\<rparr>"

definition app1_cached_world :: world where
  "app1_cached_world =
     example_world\<lparr>cache_file := Content \<lparr>timestamp = 400, devices = [simplify app1]\<rparr>,
                   devices_response := Some (200, [app1])\<rparr>"

section \<open>Observations on states and traces\<close>

text \<open>The events that the second of two successive saves adds to the trace.\<close>

definition second_save_events :: "device list \<Rightarrow> device list \<Rightarrow> world \<Rightarrow> event list" where
  "second_save_events s1 s2 w =
     drop (length (events (save_cache s1 w))) (events (save_cache s2 (save_cache s1 w)))"

text \<open>The device names that a stretch of the trace shows in "New machines added" tables.\<close>

fun reported_new :: "event list \<Rightarrow> string set" where
  "reported_new [] = {}"
| "reported_new (NewMachinesTable ds # es) = set (map nom ds) \<union> reported_new es"
| "reported_new (e # es) = reported_new es"


text \<open>The bodies of the PUT requests in a trace, in order.\<close>

fun sent_updates :: "event list \<Rightarrow> update_data list" where
  "sent_updates [] = []"
| "sent_updates (HttpPut name data # es) = data # sent_updates es"
| "sent_updates (e # es) = sent_updates es"

text \<open>
  The history as \<open>get_history\<close> returns it (empty when there is no file or it does not
  parse), and its invariant: at most ten entries, one entry per device name at most, the
  timestamps never increasing from the front.
\<close>

definition history_of :: "world \<Rightarrow> history_entry list" where
  "history_of w = (case history_file w of Content h \<Rightarrow> h | _ \<Rightarrow> [])"

definition valid_history :: "history_entry list \<Rightarrow> bool" where
  "valid_history h =
     (length h \<le> 10 \<and> distinct (map h_device_name h) \<and>
      sorted_wrt (\<lambda>a b. b \<le> a) (map h_timestamp h))"

text \<open>
  A sequence of recorded connections, each at its own clock reading; and what such a
  sequence does to the list of names: each name goes to the front, its earlier occurrence
  is dropped, and the list is cut to ten.
\<close>

fun record_connections :: "(int \<times> device) list \<Rightarrow> world \<Rightarrow> world" where
  "record_connections [] w = w"
| "record_connections ((t, d) # cs) w = record_connections cs (update_history d (w\<lparr>now := t\<rparr>))"

fun move_to_front :: "string list \<Rightarrow> string list \<Rightarrow> string list" where
  "move_to_front [] names = names"
| "move_to_front (n # ns) names = move_to_front ns (take 10 (n # removeAll n names))"

text \<open>The list without the first element that satisfies \<open>P\<close>, as \<open>update_history\<close> computes it.\<close>

definition remove_first :: "('a \<Rightarrow> bool) \<Rightarrow> 'a list \<Rightarrow> 'a list" where
  "remove_first P xs = (case first_index P xs of Some i \<Rightarrow> pop i xs | None \<Rightarrow> xs)"

text \<open>
  The offers of a forced refresh (the question that \<open>search_devices\<close> prints and
  \<open>main\<close> logs) and the requests for the device list, as they follow each other in a trace.
\<close>

definition refresh_offer :: "event \<Rightarrow> bool" where
  "refresh_offer e =
     (e = Console ''Do you want to force cache refresh and try again? (y/n)'' \<or>
      e = LogInfo ''Do you want to force cache refresh and try again? (y/n)'')"

definition refresh_trace :: "event list \<Rightarrow> event list" where
  "refresh_trace es = filter (\<lambda>e. refresh_offer e \<or> e = HttpGet) es"

section \<open>Basic facts\<close>

lemma cache_file_emit [simp]: "cache_file (emit e w) = cache_file w"
  by (simp add: emit_def)

lemma events_emit [simp]: "events (emit e w) = events w @ [e]"
  by (simp add: emit_def)

lemma now_emit [simp]: "now (emit e w) = now w"
  by (simp add: emit_def)

lemma devices_response_emit [simp]: "devices_response (emit e w) = devices_response w"
  by (simp add: emit_def)

lemma history_file_emit [simp]: "history_file (emit e w) = history_file w"
  by (simp add: emit_def)

lemma cache_file_report_new [simp]: "cache_file (report_new old new w) = cache_file w"
  by (simp add: report_new_def Let_def)

lemma cache_file_save_cache:
  "cache_file w \<noteq> Malformed \<Longrightarrow>
   cache_file (save_cache devs w) = Content \<lparr>timestamp = now w, devices = map simplify devs\<rparr>"
  by (cases "cache_file w") (simp_all add: save_cache_def Let_def)

lemma nom_simplify [simp]: "nom (simplify d) = device_name d"
  by (simp add: simplify_def)

lemma events_report_new:
  "events (report_new old new w) =
   events w @
   (let fresh = filter (\<lambda>d. nom d \<notin> set (map nom old)) new
    in if old = [] \<or> fresh = [] then []
       else if length fresh > 10 then [LogNewMachines (length fresh)]
       else [Console ''New machines added'', NewMachinesTable fresh])"
  by (simp add: report_new_def Let_def)

lemma events_save_cache:
  "cache_file w = Content c \<Longrightarrow>
   events (save_cache devs w) =
   events w @ LogCacheSaved (length devs) #
   (let fresh = filter (\<lambda>d. nom d \<notin> set (map nom (devices c))) (map simplify devs)
    in if devices c = [] \<or> fresh = [] then []
       else if length fresh > 10 then [LogNewMachines (length fresh)]
       else [Console ''New machines added'', NewMachinesTable fresh])"
  by (simp add: save_cache_def events_report_new Let_def)

lemma set_fresh_names:
  "set (map nom (filter (\<lambda>d. nom d \<notin> set (map device_name s1)) (map simplify s2))) =
   set (map device_name s2) - set (map device_name s1)"
  by (induction s2) auto

lemma py_split_not_Nil [simp]: "py_split sep s \<noteq> []"
  by (induction s) (auto split: list.splits)







lemma sent_updates_append [simp]: "sent_updates (es @ fs) = sent_updates es @ sent_updates fs"
  by (induction es rule: sent_updates.induct) auto

lemma sent_updates_report_new [simp]:
  "sent_updates (events (report_new old new w)) = sent_updates (events w)"
  by (simp add: events_report_new Let_def)

lemma sent_updates_save_cache [simp]:
  "sent_updates (events (save_cache devs w)) = sent_updates (events w)"
  by (simp add: save_cache_def Let_def split: json_file.splits)

lemma sent_updates_fetch_devices [simp]:
  "sent_updates (events (snd (fetch_devices w))) = sent_updates (events w)"
  by (simp add: fetch_devices_def Let_def split: option.splits prod.splits)

lemma sent_updates_load_cache [simp]:
  "sent_updates (events (snd (load_cache f w))) = sent_updates (events w)"
  by (simp add: load_cache_def split: json_file.splits)

lemma get_devices_unfold:
  "get_devices f w =
     (if \<not> f then
        (case fst (load_cache f w) of
           Some cached \<Rightarrow> (map_exn from_cache cached, snd (load_cache f w))
         | None \<Rightarrow> (Inr (fst (fetch_devices (snd (load_cache f w)))),
                    snd (fetch_devices (snd (load_cache f w)))))
      else (Inr (fst (fetch_devices w)), snd (fetch_devices w)))"
  by (simp add: get_devices_def split: prod.splits option.splits)

lemma sent_updates_get_devices [simp]:
  "sent_updates (events (snd (get_devices f w))) = sent_updates (events w)"
  by (simp add: get_devices_unfold split: option.splits)

lemma sent_updates_authenticate [simp]:
  "sent_updates (events (snd (authenticate w))) = sent_updates (events w)"
  by (simp add: authenticate_def Let_def split: option.splits)

lemma build_update_description_only:
  "build_update d (Some new_description) None =
     Inr \<lparr>u_device_name = device_name d, u_host = host d,
          u_description = new_description, u_tags = get_tags d\<rparr>"
  by (simp add: build_update_def)

lemma build_update_tags_only:
  "build_update d None (Some new_tags) =
     (case map_exn parse_tag (py_split (CHR '','') new_tags) of
        Inl e \<Rightarrow> Inl e
      | Inr tgs \<Rightarrow> Inr \<lparr>u_device_name = device_name d, u_host = host d,
                       u_description = get_description d, u_tags = tgs\<rparr>)"
  by (simp add: build_update_def split: sum.splits)

lemma sent_updates_update_device:
  assumes "authenticate w = (True, w1)" and "get_devices False w1 = (Inr devs, w2)"
    and "find_device name devs = Some d"
  shows "sent_updates (events (snd (update_device name new_description new_tags w))) =
         sent_updates (events w) @
         (case build_update d new_description new_tags of Inl e \<Rightarrow> [] | Inr data \<Rightarrow> [data])"
proof -
  have a: "sent_updates (events w1) = sent_updates (events w)"
    using sent_updates_authenticate [of w] assms(1) by simp
  have b: "sent_updates (events w2) = sent_updates (events w1)"
    using sent_updates_get_devices [of False w1] assms(2) by simp
  show ?thesis
  proof (cases "build_update d new_description new_tags")
    case (Inl e)
    then show ?thesis
      using assms a b by (simp add: update_device_def)
  next
    case (Inr data)
    then show ?thesis
      using assms a b
      by (simp add: update_device_def Let_def split: option.splits)
  qed
qed

lemma update_carries_looked_up_fields:
  assumes "authenticate w = (True, w1)" and "get_devices False w1 = (Inr devs, w2)"
    and "find_device name devs = Some d"
  shows "sent_updates (events (snd (update_device name (Some new_description) None w))) =
           sent_updates (events w) @
           [\<lparr>u_device_name = device_name d, u_host = host d,
             u_description = new_description, u_tags = get_tags d\<rparr>] \<and>
         sent_updates (events (snd (update_device name None (Some new_tags) w))) =
           sent_updates (events w) @
           (case map_exn parse_tag (py_split (CHR '','') new_tags) of
              Inl e \<Rightarrow> []
            | Inr tgs \<Rightarrow> [\<lparr>u_device_name = device_name d, u_host = host d,
                             u_description = get_description d, u_tags = tgs\<rparr>])"
  using sent_updates_update_device [OF assms, of "Some new_description" None]
    sent_updates_update_device [OF assms, of None "Some new_tags"]
  by (simp add: build_update_description_only build_update_tags_only split: sum.splits)

lemma remove_first_Nil [simp]: "remove_first P [] = []"
  by (simp add: remove_first_def)

lemma remove_first_Cons [simp]:
  "remove_first P (x # xs) = (if P x then xs else x # remove_first P xs)"
  by (simp add: remove_first_def pop_def split: option.splits)

lemma set_remove_first: "set (remove_first P xs) \<subseteq> set xs"
  by (induction xs) auto

lemma names_remove_first:
  "distinct (map f xs) \<Longrightarrow> map f (remove_first (\<lambda>x. f x = n) xs) = removeAll n (map f xs)"
  by (induction xs) (auto simp: image_iff)

lemma sorted_wrt_remove_first: "sorted_wrt R xs \<Longrightarrow> sorted_wrt R (remove_first P xs)"
proof (induction xs)
  case Nil
  then show ?case by simp
next
  case (Cons x xs)
  have "set (remove_first P xs) \<subseteq> set xs"
    by (rule set_remove_first)
  with Cons show ?case by auto
qed

lemma history_of_update_history:
  "history_file w \<noteq> Malformed \<Longrightarrow>
   history_file (update_history d w) =
     Content (take 10 (new_entry d w #
                       remove_first (\<lambda>h. h_device_name h = device_name d) (history_of w)))"
  by (cases "history_file w") (simp_all add: update_history_def history_of_def remove_first_def Let_def)

lemma valid_history_step:
  assumes "valid_history h" and "\<forall>e\<in>set h. h_timestamp e \<le> t" and "h_device_name e0 = n"
    and "h_timestamp e0 = t"
  shows "valid_history (take 10 (e0 # remove_first (\<lambda>e. h_device_name e = n) h))"
proof -
  let ?r = "remove_first (\<lambda>e. h_device_name e = n) h"
  have names: "map h_device_name ?r = removeAll n (map h_device_name h)"
    using assms(1) by (simp add: valid_history_def names_remove_first)
  have d: "distinct (map h_device_name (e0 # ?r))"
    using assms(1,3) by (simp add: names valid_history_def distinct_removeAll)
  have sub: "set ?r \<subseteq> set h"
    by (rule set_remove_first)
  have s: "sorted_wrt (\<lambda>a b. b \<le> a) (map h_timestamp (e0 # ?r))"
    using assms(1,2,4) sub sorted_wrt_remove_first [of "\<lambda>a b. h_timestamp b \<le> h_timestamp a" h]
    by (auto simp: valid_history_def sorted_wrt_map)
  have "distinct (map h_device_name (take 10 (e0 # ?r)))"
    using d by (metis distinct_take take_map)
  moreover have "sorted_wrt (\<lambda>a b. b \<le> a) (map h_timestamp (take 10 (e0 # ?r)))"
    using s by (metis sorted_wrt_take take_map)
  ultimately show ?thesis
    by (simp add: valid_history_def)
qed

lemma names_step:
  assumes "distinct (map h_device_name h)" and "h_device_name e0 = n"
  shows "map h_device_name (take 10 (e0 # remove_first (\<lambda>e. h_device_name e = n) h)) =
         take 10 (n # removeAll n (map h_device_name h))"
  using assms by (simp add: take_map [symmetric] names_remove_first)

lemma history_of_step:
  assumes "history_file w \<noteq> Malformed"
  shows "history_of (update_history d (w\<lparr>now := t\<rparr>)) =
         take 10 (new_entry d (w\<lparr>now := t\<rparr>) #
                  remove_first (\<lambda>h. h_device_name h = device_name d) (history_of w))"
    and "history_file (update_history d (w\<lparr>now := t\<rparr>)) \<noteq> Malformed"
  using assms history_of_update_history [of "w\<lparr>now := t\<rparr>" d]
  by (simp_all add: history_of_def)

lemma history_valid_sequence:
  assumes "history_file w \<noteq> Malformed"
    and "valid_history (history_of w)"
    and "sorted (map fst cs)"
    and "\<forall>e\<in>set (history_of w). \<forall>c\<in>set cs. h_timestamp e \<le> fst c"
  shows "valid_history (history_of (record_connections cs w)) \<and>
         map h_device_name (history_of (record_connections cs w)) =
           move_to_front (map (\<lambda>c. device_name (snd c)) cs) (map h_device_name (history_of w))"
  using assms
proof (induction cs arbitrary: w)
  case Nil
  then show ?case by simp
next
  case (Cons c cs)
  obtain t d where c: "c = (t, d)"
    by (cases c)
  let ?w = "update_history d (w\<lparr>now := t\<rparr>)"
  let ?e = "new_entry d (w\<lparr>now := t\<rparr>)"
  have e: "h_device_name ?e = device_name d" "h_timestamp ?e = t"
    by (simp_all add: new_entry_def)
  have h: "history_of ?w = take 10 (?e # remove_first (\<lambda>h. h_device_name h = device_name d) (history_of w))"
    and m: "history_file ?w \<noteq> Malformed"
    using Cons.prems(1) by (rule history_of_step)+
  have old: "\<forall>e\<in>set (history_of w). h_timestamp e \<le> t"
    using Cons.prems(4) c by simp
  have v: "valid_history (history_of ?w)"
    unfolding h using Cons.prems(2) old e by (rule valid_history_step)
  have s: "sorted (map fst cs)"
    using Cons.prems(3) by simp
  have later: "\<forall>c'\<in>set cs. t \<le> fst c'"
    using Cons.prems(3) c by auto
  have sub: "set (history_of ?w) \<subseteq> insert ?e (set (history_of w))"
    unfolding h using set_remove_first [of "\<lambda>h. h_device_name h = device_name d" "history_of w"]
      set_take_subset [of 10 "?e # remove_first (\<lambda>h. h_device_name h = device_name d) (history_of w)"]
    by auto
  have b: "\<forall>e\<in>set (history_of ?w). \<forall>c'\<in>set cs. h_timestamp e \<le> fst c'"
  proof (intro ballI)
    fix e' c'
    assume e': "e' \<in> set (history_of ?w)" and c': "c' \<in> set cs"
    from sub e' have "e' = ?e \<or> e' \<in> set (history_of w)"
      by auto
    then show "h_timestamp e' \<le> fst c'"
    proof
      assume "e' = ?e"
      then show ?thesis using later c' e(2) by simp
    next
      assume "e' \<in> set (history_of w)"
      then show ?thesis using Cons.prems(4) c' by simp
    qed
  qed
  have n: "map h_device_name (history_of ?w) =
           take 10 (device_name d # removeAll (device_name d) (map h_device_name (history_of w)))"
    unfolding h using Cons.prems(2) e(1) by (intro names_step) (simp_all add: valid_history_def)
  show ?case
    using Cons.IH [OF m v s b] by (simp add: c n)
qed

lemma history_names_sequence:
  assumes "history_file w \<noteq> Malformed"
    and "distinct (map h_device_name (history_of w))"
  shows "history_file (record_connections cs w) \<noteq> Malformed \<and>
         distinct (map h_device_name (history_of (record_connections cs w))) \<and>
         map h_device_name (history_of (record_connections cs w)) =
           move_to_front (map (\<lambda>c. device_name (snd c)) cs) (map h_device_name (history_of w))"
  using assms
proof (induction cs arbitrary: w)
  case Nil
  then show ?case by simp
next
  case (Cons c cs)
  obtain t d where c: "c = (t, d)"
    by (cases c)
  let ?w = "update_history d (w\<lparr>now := t\<rparr>)"
  let ?e = "new_entry d (w\<lparr>now := t\<rparr>)"
  have e: "h_device_name ?e = device_name d"
    by (simp add: new_entry_def)
  have h: "history_of ?w = take 10 (?e # remove_first (\<lambda>h. h_device_name h = device_name d) (history_of w))"
    and m: "history_file ?w \<noteq> Malformed"
    using Cons.prems(1) by (rule history_of_step)+
  have n: "map h_device_name (history_of ?w) =
           take 10 (device_name d # removeAll (device_name d) (map h_device_name (history_of w)))"
    unfolding h using Cons.prems(2) e by (rule names_step)
  have "distinct (device_name d # removeAll (device_name d) (map h_device_name (history_of w)))"
    using Cons.prems(2) by (simp add: distinct_removeAll)
  then have dn: "distinct (map h_device_name (history_of ?w))"
    unfolding n by (rule distinct_take)
  have g1: "record_connections (c # cs) w = record_connections cs ?w"
    by (simp add: c)
  have g2: "move_to_front (map (\<lambda>c. device_name (snd c)) (c # cs)) (map h_device_name (history_of w)) =
            move_to_front (map (\<lambda>c. device_name (snd c)) cs) (map h_device_name (history_of ?w))"
    by (simp add: c n)
  show ?case
    unfolding g1 g2 by (rule Cons.IH [OF m dn])
qed

lemma length_move_to_front: "length names \<le> 10 \<Longrightarrow> length (move_to_front ns names) \<le> 10"
  by (induction ns arbitrary: names) simp_all


lemma history_file_update_history_emit [simp]:
  "history_file (update_history d (emit e w)) = history_file (update_history d w)"
  by (simp add: update_history_def emit_def new_entry_def Let_def split: json_file.splits)

lemma all_required_tags_Cons:
  "all_required_tags (t # ts) d = (if get_tags d = [] then Inr False else Inl AttributeError)"
  by (cases "get_tags d") (simp_all add: tag_dict_def)

lemma filter_exn_tags:
  "filter_exn (all_required_tags (t # ts)) devs = Inr rs \<Longrightarrow> rs = []"
proof (induction devs arbitrary: rs)
  case Nil
  then show ?case by simp
next
  case (Cons d devs)
  then show ?case
    by (auto simp: all_required_tags_Cons simp del: all_required_tags.simps
        split: if_splits sum.splits)
qed

lemma tag_filter_never_matches: "filter_by_tags filter_tags devs = Inr rs \<Longrightarrow> rs = []"
proof -
  assume a: "filter_by_tags filter_tags devs = Inr rs"
  obtain t ts where "map (\<lambda>t. lower (strip t)) (py_split (CHR '','') filter_tags) = t # ts"
    by (cases "py_split (CHR '','') filter_tags") simp_all
  with a show ?thesis
    by (simp add: filter_by_tags_def filter_exn_tags)
qed

lemma get_devices_example:
  "get_devices False example_world =
     (Inr [web1, db1],
      example_world\<lparr>cache_file := Content \<lparr>timestamp = 1000, devices = [simplify web1, simplify db1]\<rparr>,
                    events := [LogInfo ''No cache found'', LogInfo ''Retrieving all machines...'',
                               HttpGet, LogRetrievalCompleted 2, LogCacheSaved 2]\<rparr>)"
  by (simp add: get_devices_def load_cache_def fetch_devices_def save_cache_def report_new_def
      emit_def example_world_def Let_def)

lemma get_devices_cached_world:
  "get_devices False cached_world =
     (Inr [web1, db1], cached_world\<lparr>events := [LogCacheFound [(10, ''minutes'')]]\<rparr>)"
  by (simp add: get_devices_def load_cache_def cached_world_def example_world_def emit_def
      from_cache_def parse_tag_def index_def simplify_def render_tag_def get_tags_def
      get_services_def get_description_def web1_def db1_def age_parts_def Let_def)

section \<open>The claims\<close>

text \<open>
  Claim C1 (the code does not do this). The tag filter should keep the devices that carry
  every required tag, so that searching the two example devices for the tag
  \<open>env:prod\<close> returns both. In the code the filter calls \<open>lower\<close> on the tag dicts: for
  any device list it either raises or returns no device at all (\<open>tag_filter_never_matches\<close>
  above), and the search of the example raises AttributeError.
\<close>

theorem tag_search_raises:
  "search_devices None None None (Some ''env:prod'') False False cached_world =
     (Inl AttributeError, cached_world\<lparr>events := [LogCacheFound [(10, ''minutes'')]]\<rparr>)"
  by (subst search_devices.simps)
     (simp add: get_devices_cached_world truthy_def apply_filters_def filter_by_tags_def strip_def
        lower_def lower_char_def is_space_def upper_letters_def lower_letters_def get_tags_def
        tag_dict_def web1_def db1_def Let_def)

text \<open>
  Claim C2 (the code does not do this). A search that finds nothing should offer one
  forced refresh and retry once. The retry of \<open>search_devices\<close> is a call of
  \<open>search_devices\<close> itself, so a retry that finds nothing offers the refresh again: with
  the answers "" (accepted), "y" and "n" to a search that matches no device, the refresh
  is offered three times and the device list is fetched twice. The connect-by-name branch
  of \<open>main\<close> on the same input offers once and fetches once (\<open>connect_retry_once\<close> below).
\<close>

theorem search_retry_repeats:
  "refresh_trace (events (snd (search_devices (Some ''nomatch'') None None None False False
                                 (cached_world\<lparr>stdin := ['''', ''y'', ''n'']\<rparr>)))) =
     [Console ''Do you want to force cache refresh and try again? (y/n)'', HttpGet,
      Console ''Do you want to force cache refresh and try again? (y/n)'', HttpGet,
      Console ''Do you want to force cache refresh and try again? (y/n)'']"
  by (simp add: search_devices.simps get_devices_def load_cache_def fetch_devices_def save_cache_def
      report_new_def authenticate_def read_line_def emit_def
      cached_world_def example_world_def truthy_def apply_filters_def filter_by_query_def
      from_cache_def parse_tag_def index_def simplify_def render_tag_def get_tags_def
      get_services_def get_description_def web1_def db1_def age_parts_def
      lower_def lower_char_def upper_letters_def lower_letters_def
      refresh_trace_def refresh_offer_def Let_def)

lemma connect_retry_once:
  "refresh_trace (events (snd (main_connect ''nomatch'' False False False
                                 (cached_world\<lparr>stdin := ['''', ''y'', ''n'']\<rparr>)))) =
     [LogInfo ''Do you want to force cache refresh and try again? (y/n)'', HttpGet]"
  by (simp add: main_connect_def get_devices_def load_cache_def fetch_devices_def save_cache_def
      report_new_def authenticate_def read_line_def emit_def find_device_def
      cached_world_def example_world_def
      from_cache_def parse_tag_def index_def simplify_def render_tag_def get_tags_def
      get_services_def get_description_def web1_def db1_def age_parts_def
      lower_def lower_char_def upper_letters_def lower_letters_def
      refresh_trace_def refresh_offer_def Let_def)

text \<open>
  Claim C3, amended. After a save of \<open>s1\<close> onto a cache file that is absent or parses, the
  save of \<open>s2\<close> computes as new the devices of \<open>s2\<close> whose names are not in \<open>s1\<close>, a
  set difference by name. It logs the number of saved devices and then, when \<open>s1\<close> is not
  empty and there are new devices, reports them: in a table when they are at most ten,
  as a count only when they are more. When \<open>s1\<close> is the empty list nothing is reported.
\<close>

theorem second_save_reports_new:
  assumes "cache_file w \<noteq> Malformed"
  shows "(let fresh = filter (\<lambda>d. nom d \<notin> set (map device_name s1)) (map simplify s2)
          in set (map nom fresh) = set (map device_name s2) - set (map device_name s1) \<and>
             second_save_events s1 s2 w =
               LogCacheSaved (length s2) #
               (if s1 = [] \<or> fresh = [] then []
                else if length fresh > 10 then [LogNewMachines (length fresh)]
                else [Console ''New machines added'', NewMachinesTable fresh]) \<and>
             reported_new (second_save_events s1 s2 w) =
               (if s1 = [] \<or> length fresh > 10 then {}
                else set (map device_name s2) - set (map device_name s1)))"
proof -
  define fresh where "fresh = filter (\<lambda>d. nom d \<notin> set (map device_name s1)) (map simplify s2)"
  have c: "cache_file (save_cache s1 w) = Content \<lparr>timestamp = now w, devices = map simplify s1\<rparr>"
    using assms by (rule cache_file_save_cache)
  have names: "map nom (map simplify s1) = map device_name s1"
    by simp
  have s: "set (map nom fresh) = set (map device_name s2) - set (map device_name s1)"
    unfolding fresh_def by (rule set_fresh_names)
  have ev: "second_save_events s1 s2 w =
              LogCacheSaved (length s2) #
              (if s1 = [] \<or> fresh = [] then []
               else if length fresh > 10 then [LogNewMachines (length fresh)]
               else [Console ''New machines added'', NewMachinesTable fresh])"
    unfolding second_save_events_def fresh_def
    by (simp add: events_save_cache [OF c] Let_def names del: set_map map_map)
  have rep: "reported_new (second_save_events s1 s2 w) =
               (if s1 = [] \<or> length fresh > 10 then {}
                else set (map device_name s2) - set (map device_name s1))"
  proof (cases "fresh = []")
    case True
    with s show ?thesis by (simp add: ev)
  next
    case False
    with s show ?thesis by (simp add: ev del: set_map)
  qed
  show ?thesis
    unfolding Let_def fresh_def [symmetric] using s ev rep by simp
qed

theorem second_save_reports_new_witness:
  "second_save_events [web1] [web1, db1] example_world =
     [LogCacheSaved 2, Console ''New machines added'', NewMachinesTable [simplify db1]] \<and>
   reported_new (second_save_events [web1] [web1, db1] example_world) = {''db1''}"
  using second_save_reports_new [of example_world "[web1]" "[web1, db1]"]
  by (simp add: example_world_def web1_def db1_def Let_def)

text \<open>
  The claim as stated fails when the first snapshot is empty: saving \<open>[]\<close> and then
  \<open>[web1]\<close> reports no device, while the difference of the name sets is \<open>{web1}\<close>.
\<close>

theorem first_snapshot_empty_counterexample:
  "reported_new (second_save_events [] [web1] example_world) \<noteq>
   set (map device_name [web1]) - set (map device_name [])"
  by (simp add: second_save_events_def save_cache_def report_new_def emit_def example_world_def
      web1_def Let_def)




text \<open>
  Claim C5. Starting from a history file that is absent or holds a valid history, after any
  sequence of recorded connections the history has at most ten entries and one entry per
  device name at most, and its names are those of \<open>move_to_front\<close>: the device of each
  connection goes to the front, and one already present moves there instead of appearing
  twice. When the clock readings of the connections never decrease and are not earlier
  than the timestamps already stored, the timestamps of the history never increase from
  the front: it is ordered most recent first.
\<close>

theorem history_invariant:
  assumes "history_file w \<noteq> Malformed" and "valid_history (history_of w)"
  shows "length (history_of (record_connections cs w)) \<le> 10 \<and>
         distinct (map h_device_name (history_of (record_connections cs w))) \<and>
         map h_device_name (history_of (record_connections cs w)) =
           move_to_front (map (\<lambda>c. device_name (snd c)) cs) (map h_device_name (history_of w)) \<and>
         (sorted (map fst cs) \<and> (\<forall>e\<in>set (history_of w). \<forall>c\<in>set cs. h_timestamp e \<le> fst c) \<longrightarrow>
          sorted_wrt (\<lambda>a b. b \<le> a) (map h_timestamp (history_of (record_connections cs w))))"
proof -
  let ?h = "history_of (record_connections cs w)"
  have d: "distinct (map h_device_name (history_of w))" and l: "length (history_of w) \<le> 10"
    using assms(2) by (simp_all add: valid_history_def)
  have n: "distinct (map h_device_name ?h)"
    "map h_device_name ?h =
       move_to_front (map (\<lambda>c. device_name (snd c)) cs) (map h_device_name (history_of w))"
    using history_names_sequence [OF assms(1) d, of cs] by blast+
  have "length (map h_device_name ?h) \<le> 10"
    unfolding n(2) using l by (intro length_move_to_front) simp
  then have len: "length ?h \<le> 10"
    by simp
  have "sorted_wrt (\<lambda>a b. b \<le> a) (map h_timestamp ?h)"
    if "sorted (map fst cs)" and "\<forall>e\<in>set (history_of w). \<forall>c\<in>set cs. h_timestamp e \<le> fst c"
    using history_valid_sequence [OF assms that] by (simp add: valid_history_def)
  with n len show ?thesis
    by blast
qed

theorem history_invariant_witness:
  "map h_device_name (history_of (record_connections [(1001, device_a), (1002, device_b), (1003, device_a)]
                                   example_world)) = [''A'', ''B''] \<and>
   map h_timestamp (history_of (record_connections [(1001, device_a), (1002, device_b), (1003, device_a)]
                                  example_world)) = [1003, 1002]"
  using history_invariant [of example_world "[(1001, device_a), (1002, device_b), (1003, device_a)]"]
  by (simp add: example_world_def history_of_def valid_history_def device_a_def device_b_def
      update_history_def new_entry_def pop_def get_services_def get_tags_def get_description_def
      Let_def)

text \<open>
  Claim C6 (the code does not do this). An update with only a new description should
  carry the device's tags unchanged. \<open>update_device\<close> takes the tags from the device it
  looks up in the list of \<open>get_devices\<close> (\<open>update_carries_looked_up_fields\<close> above), and
  when that list is read from the cache each tag value has been cut at its first colon:
  for \<open>app1\<close>, tagged \<open>url\<close> = \<open>http://app1:8080\<close> on the bastion and in the cache,
  the request of a description-only update carries the tag \<open>url\<close> = \<open>http\<close>.
\<close>

theorem description_update_truncates_tags:
  "get_tags app1 = [\<lparr>key = ''url'', val = ''http://app1:8080''\<rparr>] \<and>
   sent_updates (events (snd (update_device ''app1'' (Some ''new text'') None app1_cached_world))) =
     [\<lparr>u_device_name = ''app1'', u_host = ''10.0.0.3'', u_description = ''new text'',
       u_tags = [\<lparr>key = ''url'', val = ''http''\<rparr>]\<rparr>]"
proof -
  let ?w1 = "app1_cached_world\<lparr>events := [HttpPost ''admin'' ''secret'']\<rparr>"
  let ?cut = "app1\<lparr>tags := Some [\<lparr>key = ''url'', val = ''http''\<rparr>]\<rparr>"
  have a: "authenticate app1_cached_world = (True, ?w1)"
    by (simp add: authenticate_def app1_cached_world_def example_world_def emit_def Let_def)
  have g: "get_devices False ?w1 =
             (Inr [?cut], ?w1\<lparr>events := [HttpPost ''admin'' ''secret'', LogCacheFound [(10, ''minutes'')]]\<rparr>)"
    by (simp add: get_devices_def load_cache_def app1_cached_world_def example_world_def emit_def
        from_cache_def parse_tag_def index_def simplify_def render_tag_def get_tags_def
        get_services_def get_description_def app1_def age_parts_def Let_def)
  have f: "find_device ''app1'' [?cut] = Some ?cut"
    by (simp add: find_device_def app1_def)
  have "sent_updates (events (snd (update_device ''app1'' (Some ''new text'') None app1_cached_world))) =
          sent_updates (events app1_cached_world) @
          [\<lparr>u_device_name = device_name ?cut, u_host = host ?cut,
            u_description = ''new text'', u_tags = get_tags ?cut\<rparr>]"
    using sent_updates_update_device [OF a g f, of "Some ''new text''" None]
    by (simp add: build_update_description_only)
  then show ?thesis
    by (simp add: app1_cached_world_def example_world_def app1_def get_tags_def)
qed

text \<open>
  Claim C7. When each of the four filter arguments is absent or empty, \<open>search_devices\<close>
  returns the list that \<open>get_devices\<close> gives, as it is, and does nothing else: the state
  after the call is the state after \<open>get_devices\<close>, so no filter has run and nothing has been
  displayed or asked.
\<close>

theorem search_without_filters:
  assumes "\<not> truthy query" and "\<not> truthy filter_regex"
    and "\<not> truthy filter_services" and "\<not> truthy filter_tags"
  shows "search_devices query filter_regex filter_services filter_tags interactive no_deploy w =
         (case get_devices False w of
            (Inl e, w1) \<Rightarrow> (Inl e, w1)
          | (Inr devs, w1) \<Rightarrow> (Inr (Some devs), w1))"
  using assms by (subst search_devices.simps) (simp split: prod.splits sum.splits)

theorem search_without_filters_witness:
  "\<not> truthy None \<and> \<not> truthy (Some '''') \<and>
   fst (search_devices None (Some '''') None (Some '''') False False example_world) = Inr (Some [web1, db1])"
  using search_without_filters [of None "Some ''''" None "Some ''''" False False example_world]
  by (simp add: truthy_def get_devices_example)










end
